theory Spec2Isabelle
  imports Main "HOL-Library.Sublist"
begin

unbundle bit_operations_syntax

section \<open>Python values used by profs.py\<close>

text \<open>
  A Python \<open>str\<close> is modelled as a \<open>string\<close>: one \<open>char\<close> per code point, code points
  below 256. A Python \<open>int\<close> is an \<open>int\<close>. An exception is a value of type \<open>error\<close>;
  \<open>ValueError\<close> carries its message.
\<close>

datatype error =
    ValueError string
  | TypeError
  | AssertionError
  | FileNotFoundError
  | PermissionError
  | FileExistsError
  | UnicodeDecodeError
  | StructError
  | IndexError
  | OSError

subsection \<open>String methods\<close>

definition isspace :: "char \<Rightarrow> bool" where
  \<comment> \<open>\<open>str.isspace\<close> on one code point below 256\<close>
  "isspace c = (c \<in> {CHR 0x09, CHR 0x0A, CHR 0x0B, CHR 0x0C, CHR 0x0D, CHR 0x1C, CHR 0x1D,
                      CHR 0x1E, CHR 0x1F, CHR '' '', CHR 0x85, CHR 0xA0})"

definition strip :: "string \<Rightarrow> string" where
  \<comment> \<open>\<open>s.strip()\<close>\<close>
  "strip s = rev (dropWhile isspace (rev (dropWhile isspace s)))"

definition startswith :: "string \<Rightarrow> string \<Rightarrow> bool" where
  \<comment> \<open>\<open>s.startswith(p)\<close>\<close>
  "startswith s p = (take (length p) s = p)"

definition endswith :: "string \<Rightarrow> string \<Rightarrow> bool" where
  \<comment> \<open>\<open>s.endswith(p)\<close>\<close>
  "endswith s p = (drop (length s - length p) s = p \<and> length p \<le> length s)"

fun str_index :: "string \<Rightarrow> char \<Rightarrow> error + nat" where
  \<comment> \<open>\<open>s.index(c)\<close>: the first position of \<open>c\<close>, ValueError when there is none\<close>
  "str_index [] c = Inl (ValueError ''substring not found'')"
| "str_index (x # xs) c =
     (if x = c then Inr 0
      else case str_index xs c of Inl e \<Rightarrow> Inl e | Inr i \<Rightarrow> Inr (Suc i))"

fun split_on :: "char \<Rightarrow> string \<Rightarrow> string list" where
  \<comment> \<open>\<open>s.split(c)\<close>\<close>
  "split_on c [] = [[]]"
| "split_on c (x # xs) =
     (if x = c then [] # split_on c xs
      else case split_on c xs of
             [] \<Rightarrow> [[x]]
           | w # ws \<Rightarrow> (x # w) # ws)"

fun join_with :: "string \<Rightarrow> string list \<Rightarrow> string" where
  \<comment> \<open>\<open>sep.join(parts)\<close>\<close>
  "join_with sep [] = []"
| "join_with sep [p] = p"
| "join_with sep (p # q # ps) = p @ sep @ join_with sep (q # ps)"

subsection \<open>Decimal text of integers\<close>

definition digit_char :: "nat \<Rightarrow> char" where
  "digit_char d = ''0123456789'' ! (d mod 10)"

function str_nat :: "nat \<Rightarrow> string" where
  "str_nat n = (if n < 10 then [digit_char n] else str_nat (n div 10) @ [digit_char (n mod 10)])"
  by pat_completeness auto
termination
  by (relation "measure id") auto

definition str_int :: "int \<Rightarrow> string" where
  \<comment> \<open>\<open>'{}'.format(i)\<close> for an int\<close>
  "str_int i = (if i < 0 then CHR ''-'' # str_nat (nat (- i)) else str_nat (nat i))"

definition is_digit :: "char \<Rightarrow> bool" where
  "is_digit c = (c \<in> set ''0123456789'')"

definition digit_val :: "char \<Rightarrow> nat" where
  "digit_val c = of_char c - 48"

definition digits_value :: "string \<Rightarrow> nat" where
  "digits_value ds = foldl (\<lambda>acc c. 10 * acc + digit_val c) 0 ds"

fun no_double_underscore :: "string \<Rightarrow> bool" where
  "no_double_underscore (a # b # r) =
     (\<not> (a = CHR ''_'' \<and> b = CHR ''_'') \<and> no_double_underscore (b # r))"
| "no_double_underscore _ = True"

definition valid_digits :: "string \<Rightarrow> bool" where
  \<comment> \<open>decimal digits, single underscores allowed between two digits\<close>
  "valid_digits b =
     (b \<noteq> [] \<and> list_all (\<lambda>c. is_digit c \<or> c = CHR ''_'') b \<and> is_digit (hd b) \<and> is_digit (last b)
      \<and> no_double_underscore b)"

definition int_space :: "char \<Rightarrow> bool" where
  \<comment> \<open>the white space \<open>int\<close> skips around a number: tab, LF, VT, FF, CR and the space, and the
      spaces beyond ASCII (NEL and the no-break space below 256), which it reads as spaces;
      the separators \<open>0x1C\<close> to \<open>0x1F\<close>, which \<open>str.strip\<close> removes, are not among them\<close>
  "int_space c = (c \<in> {CHR 0x09, CHR 0x0A, CHR 0x0B, CHR 0x0C, CHR 0x0D, CHR '' '',
                        CHR 0x85, CHR 0xA0})"

definition py_int :: "string \<Rightarrow> error + int" where
  \<comment> \<open>\<open>int(s)\<close> for a str: surrounding white space ignored, an optional sign, decimal digits
      with single underscores between them; anything else raises ValueError. (The limit
      newer interpreters put on the number of digits is not modelled.)\<close>
  "py_int s =
     (let t = rev (dropWhile int_space (rev (dropWhile int_space s)));
          neg = (t \<noteq> [] \<and> hd t = CHR ''-'');
          body = (if t \<noteq> [] \<and> (hd t = CHR ''-'' \<or> hd t = CHR ''+'') then tl t else t)
      in if valid_digits body
         then Inr ((if neg then - 1 else 1) * int (digits_value (filter (\<lambda>c. c \<noteq> CHR ''_'') body)))
         else Inl (ValueError ''invalid literal for int()''))"

subsection \<open>\<open>os.path\<close> (posixpath)\<close>

text \<open>
  \<open>os.path.join\<close>, \<open>os.path.normpath\<close> and \<open>os.path.abspath\<close> are functions of the Python
  library that work on the text of a path only; they are written out here as posixpath
  defines them. \<open>os.path.realpath\<close>, \<open>os.stat\<close> and \<open>os.listdir\<close> ask the file system and
  are parameters of the model.
\<close>

definition join :: "string \<Rightarrow> string \<Rightarrow> string" where
  \<comment> \<open>\<open>os.path.join(a, b)\<close>\<close>
  "join a b =
     (if startswith b ''/'' \<or> a = [] then b
      else if endswith a ''/'' then a @ b
      else a @ ''/'' @ b)"

definition norm_step :: "nat \<Rightarrow> string list \<Rightarrow> string \<Rightarrow> string list" where
  \<comment> \<open>one round of the loop of normpath over the components\<close>
  "norm_step initial_slashes new_comps component =
     (if component = [] \<or> component = ''.'' then new_comps
      else if component \<noteq> ''..'' \<or> (initial_slashes = 0 \<and> new_comps = [])
              \<or> (new_comps \<noteq> [] \<and> last new_comps = ''..'')
           then new_comps @ [component]
      else if new_comps \<noteq> [] then butlast new_comps
      else new_comps)"

definition normpath :: "string \<Rightarrow> string" where
  \<comment> \<open>\<open>os.path.normpath(path)\<close>\<close>
  "normpath path =
     (if path = [] then ''.''
      else
        let initial_slashes =
              (if startswith path ''/''
               then (if startswith path ''//'' \<and> \<not> startswith path ''///'' then 2 else 1)
               else 0);
            comps = foldl (norm_step initial_slashes) [] (split_on CHR ''/'' path);
            p = replicate initial_slashes CHR ''/'' @ join_with ''/'' comps
        in if p = [] then ''.'' else p)"

definition abspath :: "string \<Rightarrow> string \<Rightarrow> string" where
  \<comment> \<open>\<open>os.path.abspath(path)\<close>, in a process whose working directory is \<open>getcwd\<close>\<close>
  "abspath getcwd path =
     normpath (if startswith path ''/'' then path else join getcwd path)"

section \<open>Paths\<close>

text \<open>
  \<open>Paths.add\<close> (lines 25-42). The set \<open>paths\<close> is the state; \<open>realpath\<close> is the answer of
  the operating system, which raises ValueError on a string with an embedded NUL.
  In the handler of that ValueError the truncated string \<open>non_zt_path\<close> is computed
  (ValueError again when the string has no NUL) and then \<open>os.path.realpath(path)\<close> is called
  on \<open>path\<close> once more; an exception raised inside the handler leaves \<open>add\<close>.
\<close>

definition Paths_add ::
  "(string \<Rightarrow> error + string) \<Rightarrow> string \<Rightarrow> bool \<Rightarrow> string \<Rightarrow> string set \<Rightarrow> error + string set"
where
  "Paths_add realpath base relative_only path0 paths =
     (let path = strip path0;
          resolved =
            (case realpath path of
               Inl (ValueError m) \<Rightarrow>
                 (case str_index path (CHR 0x00) of
                    Inl e \<Rightarrow> Inl e
                  | Inr i \<Rightarrow> (let non_zt_path = take i path in realpath path))
             | Inl e \<Rightarrow> Inl e
             | Inr p \<Rightarrow> Inr p)
      in case resolved of
           Inl e \<Rightarrow> Inl e
         | Inr canonical_path \<Rightarrow>
             (if relative_only \<and> \<not> startswith canonical_path base
              then Inl (ValueError (canonical_path @ '' is not under '' @ base))
              else
                let canonical_path1 =
                      (if relative_only then drop (length base + 1) canonical_path
                       else canonical_path);
                    canonical_path2 = (if canonical_path1 = [] then ''.'' else canonical_path1)
                in Inr (insert canonical_path2 paths)))"

section \<open>StatObject\<close>

text \<open>
  What \<open>os.stat(path, follow_symlinks=False)\<close> returns, with the attributes the program
  reads. \<open>st_ctime\<close> and \<open>st_mtime\<close> stand for \<open>int(stat_result.st_ctime)\<close> and
  \<open>int(stat_result.st_mtime)\<close>, the whole seconds that lines 64-65 store.
\<close>

record stat_result =
  st_mode :: int
  st_dev :: int
  st_gid :: int
  st_uid :: int
  st_ctime :: int
  st_mtime :: int
  st_size :: int

definition S_ISDIR :: "int \<Rightarrow> bool" where
  "S_ISDIR m = (m AND 61440 = 16384)"

definition S_ISREG :: "int \<Rightarrow> bool" where
  "S_ISREG m = (m AND 61440 = 32768)"

text \<open>
  The slots of a StatObject (line 48); \<open>serialized\<close> is the slot \<open>_serialized\<close>, the cache
  of \<open>serialize\<close>, a \<open>bytes\<close> value or None.
\<close>

record StatObject =
  so_mode :: int
  so_inode :: int
  so_gid :: int
  so_uid :: int
  so_mtime :: int
  so_ctime :: int
  so_size :: int
  serialized :: "string option"

definition StatObject_from_stat :: "stat_result \<Rightarrow> int \<Rightarrow> StatObject" where
  \<comment> \<open>\<open>StatObject(stat_result=stat_result, inode=inode)\<close>, lines 54-72 with \<open>data\<close> None\<close>
  "StatObject_from_stat stat_result inode0 =
     \<lparr> so_mode = st_mode stat_result, so_inode = inode0, so_gid = st_gid stat_result,
       so_uid = st_uid stat_result, so_mtime = st_mtime stat_result,
       so_ctime = st_ctime stat_result, so_size = st_size stat_result, serialized = None \<rparr>"

definition StatObject_from_data :: "string \<Rightarrow> error + StatObject" where
  \<comment> \<open>\<open>StatObject(data=data)\<close>: \<open>data\<close> is not None, so line 58 calls the bound method
      \<open>self.unserialize(self, data)\<close> with one argument more than \<open>unserialize(self, data)\<close>
      takes, which raises TypeError before any slot but \<open>_serialized\<close> is set\<close>
  "StatObject_from_data data = Inl TypeError"

section \<open>FileSystem\<close>

text \<open>What the program prints, one value for each \<open>print\<close> of the class.\<close>

datatype event =
    NotUnderBase string string
  | SkipOtherFS string
  | SkipTooLarge string int
  | SkipDuplicate string string string string
  | SkipPermission string
  | Progress int
  | ProgressEnd int
  | Printed string

text \<open>
  The state an instance works on: the counter \<open>inode\<close>, the dict \<open>names\<close> in insertion
  order, the list \<open>stat_objects\<close>, and the lines printed so far.
\<close>

record FileSystem =
  inode :: int
  names :: "(string \<times> int) list"
  stat_objects :: "StatObject list"
  stdout :: "event list"

text \<open>
  The attributes \<open>__init__\<close> and \<open>init_from_paths\<close> assign and nothing changes afterwards.
  \<open>maxsize\<close> is None or the text of the command line. \<open>getcwd\<close> is the working directory
  of the process, which \<open>os.path.abspath\<close> reads for a relative path. The global \<open>base\<close>
  of line 194 is the string the main program passes as \<open>base\<close> to the constructor.
\<close>

record config =
  base :: string
  base_len :: nat
  follow :: bool
  bailout :: bool
  maxsize :: "string option"
  progress :: bool
  name :: string
  dev :: int
  getcwd :: string

definition FileSystem_attrs ::
  "string \<Rightarrow> bool \<Rightarrow> bool \<Rightarrow> bool \<Rightarrow> string option \<Rightarrow> string \<Rightarrow> string \<Rightarrow> config"
where
  \<comment> \<open>lines 111-120; \<open>dev\<close> does not exist before \<open>init_from_paths\<close> assigns it and is not
      read before\<close>
  "FileSystem_attrs base0 follow0 bailout0 progress0 maxsize0 name0 cwd =
     \<lparr> base = base0, base_len = (if base0 = ''/'' then 1 else length base0 + 1),
       follow = follow0, bailout = bailout0, maxsize = maxsize0, progress = progress0,
       name = name0, dev = 0, getcwd = cwd \<rparr>"

definition new_node :: "config \<Rightarrow> string \<Rightarrow> FileSystem \<Rightarrow> error + (int option \<times> FileSystem)" where
  \<comment> \<open>lines 158-172\<close>
  "new_node self name0 s =
     (if name0 \<in> set (map fst (names s))
      then (if bailout self then Inl (ValueError (''duplicate: '' @ name0)) else Inr (None, s))
      else
        let inode0 = inode s;
            s1 = s\<lparr>inode := inode s + 1\<rparr>;
            s2 = s1\<lparr>names := names s1 @ [(name0, inode0)]\<rparr>;
            s3 = (if progress self \<and> inode s2 mod 1000 = 0
                  then s2\<lparr>stdout := stdout s2 @ [Progress (inode s2)]\<rparr> else s2)
        in Inr (Some inode0, s3))"

subsection \<open>The tree walk\<close>

text \<open>
  The walk asks the operating system two things about each path it visits: \<open>os.stat\<close> and,
  for a directory it follows, \<open>os.listdir\<close>. An \<open>entry\<close> holds the path string handed to
  the loop and the answers to both: \<open>lstat\<close> is the stat result or the exception raised,
  \<open>listdir_error\<close> is the exception of \<open>os.listdir\<close> if it raises, and \<open>children\<close> are the
  entries of the names it returns otherwise, in the order returned.
\<close>

datatype entry =
  Entry (path: string) (lstat: "error + stat_result") (listdir_error: "error option")
        (children: "entry list")

datatype result = Returns FileSystem | Raises error FileSystem

fun final :: "result \<Rightarrow> FileSystem" where
  "final (Returns s) = s"
| "final (Raises e s) = s"

definition parse_maxsize :: "config \<Rightarrow> error + int option" where
  \<comment> \<open>lines 184-187: \<open>int(None)\<close> raises TypeError, which is caught; \<open>int\<close> of a text that is
      no number raises ValueError, which is not\<close>
  "parse_maxsize self =
     (case maxsize self of
        None \<Rightarrow> Inr None
      | Some m \<Rightarrow> (case py_int m of Inl e \<Rightarrow> Inl e | Inr v \<Rightarrow> Inr (Some v)))"

definition record_entry ::
  "config \<Rightarrow> int option \<Rightarrow> string \<Rightarrow> string \<Rightarrow> string \<Rightarrow> stat_result \<Rightarrow> FileSystem \<Rightarrow> error + FileSystem"
where
  \<comment> \<open>lines 207-215, for an entry on the device of the base\<close>
  "record_entry self maxsize0 name0 canonical_path relative_path stat_result s =
     (if maxsize0 \<noteq> None \<and> S_ISREG (st_mode stat_result) \<and> st_size stat_result > the maxsize0
      then Inr (s\<lparr>stdout := stdout s @ [SkipTooLarge canonical_path (st_size stat_result)]\<rparr>)
      else
        case new_node self name0 s of
          Inl e \<Rightarrow> Inl e
        | Inr (None, s1) \<Rightarrow>
            Inr (s1\<lparr>stdout := stdout s1 @
                   [SkipDuplicate name0 canonical_path (base self) relative_path]\<rparr>)
        | Inr (Some inode0, s1) \<Rightarrow>
            (let so = StatObject_from_stat stat_result inode0
             in Inr (s1\<lparr>stat_objects := stat_objects s1 @ [so]\<rparr>)))"

definition listing_handlers :: "string \<Rightarrow> error \<Rightarrow> FileSystem \<Rightarrow> result" where
  \<comment> \<open>lines 222-226: the handlers of the \<open>try\<close> around \<open>os.listdir\<close> and the recursive call\<close>
  "listing_handlers canonical_path e s =
     (if e = FileNotFoundError then Raises AssertionError s
      else if e = PermissionError
           then Returns (s\<lparr>stdout := stdout s @ [SkipPermission canonical_path]\<rparr>)
      else Raises e s)"

fun init_from_paths_rec :: "config \<Rightarrow> string option \<Rightarrow> entry list \<Rightarrow> FileSystem \<Rightarrow> result"
  and paths_loop :: "config \<Rightarrow> int option \<Rightarrow> string option \<Rightarrow> entry list \<Rightarrow> FileSystem \<Rightarrow> result"
  and visit :: "config \<Rightarrow> int option \<Rightarrow> string option \<Rightarrow> entry \<Rightarrow> FileSystem \<Rightarrow> result"
where
  \<comment> \<open>\<open>_init_from_paths(self, cwd, paths)\<close>, lines 183-229\<close>
  "init_from_paths_rec self cwd paths s =
     (case parse_maxsize self of
        Inl e \<Rightarrow> Raises e s
      | Inr maxsize0 \<Rightarrow> paths_loop self maxsize0 cwd paths s)"
  \<comment> \<open>the \<open>for\<close> loop of line 189 with the handler of lines 227-229\<close>
| "paths_loop self maxsize0 cwd [] s = Returns s"
| "paths_loop self maxsize0 cwd (p # ps) s =
     (case visit self maxsize0 cwd p s of
        Returns s1 \<Rightarrow> paths_loop self maxsize0 cwd ps s1
      | Raises e s1 \<Rightarrow>
          (if e = FileNotFoundError \<and> \<not> bailout self then paths_loop self maxsize0 cwd ps s1
           else Raises e s1))"
  \<comment> \<open>the body of the \<open>try\<close>, lines 191-226\<close>
| "visit self maxsize0 cwd (Entry path0 stat_answer list_error children0) s =
     (let relative_path = (case cwd of None \<Rightarrow> path0 | Some c \<Rightarrow> join c path0);
          abs_path = join (base self) relative_path;
          canonical_path = abspath (getcwd self) abs_path
      in if \<not> startswith canonical_path (base self)
         then Raises AssertionError
                (s\<lparr>stdout := stdout s @ [NotUnderBase canonical_path (base self)]\<rparr>)
         else
           let name0 = drop (base_len self) canonical_path
           in case stat_answer of
                Inl e \<Rightarrow> Raises e s
              | Inr stat_result \<Rightarrow>
                  if st_dev stat_result \<noteq> dev self
                  then Returns (s\<lparr>stdout := stdout s @ [SkipOtherFS canonical_path]\<rparr>)
                  else
                    (case record_entry self maxsize0 name0 canonical_path relative_path
                            stat_result s of
                       Inl e \<Rightarrow> Raises e s
                     | Inr s1 \<Rightarrow>
                         if S_ISDIR (st_mode stat_result) \<and> follow self
                         then (case list_error of
                                 Some e \<Rightarrow> listing_handlers canonical_path e s1
                               | None \<Rightarrow>
                                   (case init_from_paths_rec self (Some relative_path) children0 s1 of
                                      Returns s2 \<Rightarrow> Returns s2
                                    | Raises e s2 \<Rightarrow> listing_handlers canonical_path e s2))
                         else Returns s1))"

definition init_from_paths :: "config \<Rightarrow> error + stat_result \<Rightarrow> entry list \<Rightarrow> FileSystem \<Rightarrow> config \<times> result" where
  \<comment> \<open>lines 174-181; \<open>base_answer\<close> is the answer to \<open>os.stat\<close> of the base directory\<close>
  "init_from_paths self base_answer paths s =
     (case base_answer of
        Inl e \<Rightarrow> (self, Raises e s)
      | Inr stat_result \<Rightarrow>
          (let self1 = self\<lparr>dev := st_dev stat_result\<rparr>
           in case init_from_paths_rec self1 None paths s of
                Raises e s1 \<Rightarrow> (self1, Raises e s1)
              | Returns s1 \<Rightarrow>
                  (self1, Returns (if progress self1
                                   then s1\<lparr>stdout := stdout s1 @ [ProgressEnd (inode s1)]\<rparr>
                                   else s1))))"

subsection \<open>The snapshot file\<close>

text \<open>
  A \<open>bytes\<close> value is a list of \<open>char\<close>, one per byte. \<open>struct.pack('IIIIlll', ...)\<close> uses
  the native sizes and byte order; they are those of a 64-bit little-endian Linux, where a
  record is the 40 bytes that \<open>import_fs\<close> slices: four unsigned 32-bit fields, then three
  signed 64-bit fields. A value out of the range of its field raises \<open>struct.error\<close>.
\<close>

fun le_bytes :: "nat \<Rightarrow> int \<Rightarrow> string" where
  "le_bytes 0 v = []"
| "le_bytes (Suc n) v = char_of (v mod 256) # le_bytes n (v div 256)"

definition fits_I :: "int \<Rightarrow> bool" where
  "fits_I v = (0 \<le> v \<and> v < 4294967296)"

definition fits_l :: "int \<Rightarrow> bool" where
  "fits_l v = (- 9223372036854775808 \<le> v \<and> v < 9223372036854775808)"

definition struct_pack :: "StatObject \<Rightarrow> error + string" where
  \<comment> \<open>lines 82-85\<close>
  "struct_pack so =
     (if fits_I (so_mode so) \<and> fits_I (so_inode so) \<and> fits_I (so_gid so) \<and> fits_I (so_uid so)
         \<and> fits_l (so_mtime so) \<and> fits_l (so_ctime so) \<and> fits_l (so_size so)
      then Inr (le_bytes 4 (so_mode so) @ le_bytes 4 (so_inode so) @ le_bytes 4 (so_gid so)
                @ le_bytes 4 (so_uid so) @ le_bytes 8 (so_mtime so) @ le_bytes 8 (so_ctime so)
                @ le_bytes 8 (so_size so))
      else Inl StructError)"

definition serialize :: "StatObject \<Rightarrow> error + (string \<times> StatObject)" where
  \<comment> \<open>lines 80-86: the bytes and the object with its cache filled\<close>
  "serialize so =
     (case serialized so of
        Some b \<Rightarrow> Inr (b, so)
      | None \<Rightarrow>
          (case struct_pack so of
             Inl e \<Rightarrow> Inl e
           | Inr b \<Rightarrow> Inr (b, so\<lparr>serialized := Some b\<rparr>)))"

definition utf8_char :: "char \<Rightarrow> string" where
  \<comment> \<open>the UTF-8 bytes of one code point below 256\<close>
  "utf8_char c =
     (let n = (of_char c :: nat)
      in if n < 128 then [c] else [char_of (192 + n div 64), char_of (128 + n mod 64)])"

definition utf8_bytes :: "string \<Rightarrow> string" where
  \<comment> \<open>\<open>bytes(s, encoding='utf-8')\<close>\<close>
  "utf8_bytes s = concat (map utf8_char s)"

fun export_names :: "(string \<times> int) list \<Rightarrow> (string \<times> int) list \<Rightarrow> error + string" where
  \<comment> \<open>the loop of lines 146-148 over the keys of \<open>all_names\<close>; the assertion of line 147
      asks whether the one-character string of a newline is a key of the dict\<close>
  "export_names all_names [] = Inr []"
| "export_names all_names ((name0, i) # rest) =
     (if ''\<newline>'' \<in> set (map fst all_names) then Inl AssertionError
      else case export_names all_names rest of
             Inl e \<Rightarrow> Inl e
           | Inr b \<Rightarrow> Inr (utf8_bytes (name0 @ ''\<newline>'' @ str_int i @ ''\<newline>'') @ b))"

fun export_records :: "StatObject list \<Rightarrow> error + (string list \<times> StatObject list \<times> event list)" where
  \<comment> \<open>the loop of lines 151-154: the list \<open>l\<close>, the objects with their caches filled, and
      what is printed\<close>
  "export_records [] = Inr ([], [], [])"
| "export_records (so # sos) =
     (case serialize so of
        Inl e \<Rightarrow> Inl e
      | Inr (b, so1) \<Rightarrow>
          (case serialize so1 of
             Inl e \<Rightarrow> Inl e
           | Inr (b1, so2) \<Rightarrow>
               (case export_records sos of
                  Inl e \<Rightarrow> Inl e
                | Inr (l, sos1, evs) \<Rightarrow> Inr (b1 # l, so2 # sos1, Printed b # evs))))"

definition export_fs :: "config \<Rightarrow> bool \<Rightarrow> FileSystem \<Rightarrow> error + (string \<times> FileSystem)" where
  \<comment> \<open>lines 143-156: the bytes of the file written and the state afterwards.
      \<open>file_exists\<close> says whether \<open>self.name\<close> exists, in which case mode \<open>'x'\<close> raises.
      Where an exception leaves the function the result is the exception alone.\<close>
  "export_fs self file_exists s =
     (if file_exists then Inl FileExistsError
      else
        case export_names (names s) (names s) of
          Inl e \<Rightarrow> Inl e
        | Inr names_bytes \<Rightarrow>
            (case export_records (stat_objects s) of
               Inl e \<Rightarrow> Inl e
             | Inr (l, sos1, evs) \<Rightarrow>
                 Inr (utf8_bytes (str_int (inode s) @ ''\<newline>'') @ names_bytes @ concat l,
                      s\<lparr>stat_objects := sos1, stdout := stdout s @ evs\<rparr>)))"

text \<open>
  \<open>import_fs\<close> opens the file in text mode: the bytes are decoded by the codec of the
  locale, the parameter \<open>decode\<close>, and the line ends \<open>\r\n\<close> and \<open>\r\<close> are read as \<open>\n\<close>.
  \<open>ascii_decode\<close> is the codec \<open>ascii\<close>, with which UTF-8 agrees on a file of ASCII bytes.
\<close>

definition ascii_decode :: "string \<Rightarrow> error + string" where
  "ascii_decode b = (if list_all (\<lambda>c. (of_char c :: nat) < 128) b then Inr b else Inl UnicodeDecodeError)"

fun universal_newlines :: "string \<Rightarrow> string" where
  "universal_newlines (a # b # r) =
     (if a = CHR 0x0D \<and> b = CHR 0x0A then CHR 0x0A # universal_newlines r
      else if a = CHR 0x0D then CHR 0x0A # universal_newlines (b # r)
      else a # universal_newlines (b # r))"
| "universal_newlines [a] = (if a = CHR 0x0D then [CHR 0x0A] else [a])"
| "universal_newlines [] = []"

fun readline :: "string \<Rightarrow> string \<times> string" where
  \<comment> \<open>\<open>f.readline()\<close>: the line with its newline, and the text left; \<open>''\<close> at the end\<close>
  "readline [] = ([], [])"
| "readline (c # cs) =
     (if c = CHR 0x0A then ([c], cs)
      else case readline cs of (l, r) \<Rightarrow> (c # l, r))"

definition dict_set :: "string \<Rightarrow> int \<Rightarrow> (string \<times> int) list \<Rightarrow> (string \<times> int) list" where
  \<comment> \<open>\<open>d[k] = v\<close> on a dict in insertion order: a key that is present keeps its place\<close>
  "dict_set k v d =
     (if k \<in> set (map fst d) then map (\<lambda>(k', v'). if k' = k then (k', v) else (k', v')) d
      else d @ [(k, v)])"

fun import_names :: "nat \<Rightarrow> string \<Rightarrow> (string \<times> int) list \<Rightarrow> error + (string \<times> (string \<times> int) list)" where
  \<comment> \<open>the loop of lines 133-136, \<open>k\<close> rounds on the text \<open>t\<close>\<close>
  "import_names 0 t d = Inr (t, d)"
| "import_names (Suc k) t d =
     (case readline t of
        (l1, t1) \<Rightarrow>
          (let name0 = strip l1
           in case readline t1 of
                (l2, t2) \<Rightarrow>
                  (case py_int l2 of
                     Inl e \<Rightarrow> Inl e
                   | Inr inode0 \<Rightarrow> import_names k t2 (dict_set name0 inode0 d))))"

fun import_records :: "string \<Rightarrow> nat list \<Rightarrow> StatObject list \<Rightarrow> error + StatObject list" where
  \<comment> \<open>the loop of lines 139-141 over the indices \<open>is\<close>; the right-hand side of line 141 is
      evaluated before the item assignment, which raises IndexError beyond the end\<close>
  "import_records sos [] objs = Inr objs"
| "import_records sos (i # is) objs =
     (let data = take 40 (drop (40 * i) sos)
      in case StatObject_from_data data of
           Inl e \<Rightarrow> Inl e
         | Inr so \<Rightarrow>
             (if i < length objs then import_records sos is (objs[i := so])
              else Inl IndexError))"

definition import_fs :: "(string \<Rightarrow> error + string) \<Rightarrow> string \<Rightarrow> FileSystem \<Rightarrow> error + FileSystem" where
  \<comment> \<open>lines 128-141 on a file that exists and holds the bytes \<open>file\<close>. Where an exception
      leaves the function the result is the exception alone.\<close>
  "import_fs decode file s =
     (case decode file of
        Inl e \<Rightarrow> Inl e
      | Inr decoded \<Rightarrow>
          (case readline (universal_newlines decoded) of
             (l, t) \<Rightarrow>
               (case py_int l of
                  Inl e \<Rightarrow> Inl e
                | Inr n \<Rightarrow>
                    (case import_names (nat n) t (names s) of
                       Inl e \<Rightarrow> Inl e
                     | Inr (sos, d) \<Rightarrow>
                         (case import_records sos [0..<nat n] (stat_objects s) of
                            Inl e \<Rightarrow> Inl e
                          | Inr objs \<Rightarrow>
                              Inr (s\<lparr>inode := n, names := d, stat_objects := objs\<rparr>))))))"

subsection \<open>Class attributes and instances\<close>

text \<open>
  Lines 103-105 bind \<open>inode\<close>, \<open>names\<close> and \<open>stat_objects\<close> in the body of the class.
  No method assigns \<open>self.names\<close> or \<open>self.stat_objects\<close>: every instance reads the dict
  and the list of the class and changes them in place. \<open>self.inode += 1\<close> reads the
  attribute (the 0 of the class the first time) and binds the sum on the instance.
  A \<open>process\<close> holds the two objects of the class and the lines printed; an \<open>fs_instance\<close>
  holds the attributes of one object.
\<close>

record process =
  FileSystem_names :: "(string \<times> int) list"
  FileSystem_stat_objects :: "StatObject list"
  console :: "event list"

record fs_instance =
  attrs :: config
  self_inode :: int

definition class_defaults :: FileSystem where
  \<comment> \<open>what a walk starts from in a process that has built no FileSystem yet\<close>
  "class_defaults = \<lparr> inode = 0, names = [], stat_objects = [], stdout = [] \<rparr>"

definition started :: process where
  "started = \<lparr> FileSystem_names = [], FileSystem_stat_objects = [], console = [] \<rparr>"

definition view :: "process \<Rightarrow> int \<Rightarrow> FileSystem" where
  \<comment> \<open>what the methods of an instance with counter \<open>i\<close> read as \<open>self.inode\<close>, \<open>self.names\<close>
      and \<open>self.stat_objects\<close>\<close>
  "view p i = \<lparr> inode = i, names = FileSystem_names p,
                stat_objects = FileSystem_stat_objects p, stdout = console p \<rparr>"

definition store :: "FileSystem \<Rightarrow> process" where
  "store s = \<lparr> FileSystem_names = names s, FileSystem_stat_objects = stat_objects s,
               console = stdout s \<rparr>"

definition FileSystem_create ::
  "config \<Rightarrow> error + stat_result \<Rightarrow> entry list \<Rightarrow> bool \<Rightarrow> process \<Rightarrow> (error + fs_instance \<times> string) \<times> process"
where
  \<comment> \<open>\<open>FileSystem(..., create=True, ...)\<close>, lines 110-124: the new instance and the file it
      wrote, or the exception, and the process afterwards. What \<open>export_fs\<close> printed
      or cached before it raised is not kept: the process is then the one the walk left.\<close>
  "FileSystem_create self base_answer paths file_exists p =
     (case init_from_paths self base_answer paths (view p 0) of
        (self1, Raises e s1) \<Rightarrow> (Inl e, store s1)
      | (self1, Returns s1) \<Rightarrow>
          (case export_fs self1 file_exists s1 of
             Inl e \<Rightarrow> (Inl e, store s1)
           | Inr (file, s2) \<Rightarrow>
               (Inr (\<lparr> attrs = self1, self_inode = inode s2 \<rparr>, file), store s2)))"

subsection \<open>Predicates on states\<close>

text \<open>
  \<open>dense s\<close>: the counter is the number of names, the keys are distinct, the
  identities are \<open>0, 1, ...\<close> in the order the names were added, and the record at each
  index carries that index as its identity.
\<close>

definition dense :: "FileSystem \<Rightarrow> bool" where
  "dense s =
     (inode s = int (length (names s)) \<and> distinct (map fst (names s))
      \<and> map snd (names s) = map int [0..<length (names s)]
      \<and> length (stat_objects s) = length (names s)
      \<and> map so_inode (stat_objects s) = map int [0..<length (names s)])"

text \<open>
  \<open>extends s0 s\<close>: \<open>s\<close> holds everything \<open>s0\<close> holds, at the same places, and
  perhaps more after it.
\<close>

definition extends :: "FileSystem \<Rightarrow> FileSystem \<Rightarrow> bool" where
  "extends s0 s =
     (prefix (names s0) (names s) \<and> prefix (stat_objects s0) (stat_objects s)
      \<and> prefix (stdout s0) (stdout s) \<and> inode s0 \<le> inode s)"

text \<open>
  \<open>os.path.realpath\<close> on a file system without symbolic links, in a process whose working
  directory is \<open>cwd\<close>: the absolute normalised path, and ValueError for a string with a NUL.
\<close>

definition realpath_nolinks :: "string \<Rightarrow> string \<Rightarrow> error + string" where
  "realpath_nolinks cwd p =
     (if CHR 0x00 \<in> set p then Inl (ValueError ''embedded null byte'')
      else Inr (abspath cwd p))"

subsection \<open>Concrete inputs\<close>

text \<open>
  Inputs at which the model is evaluated: a directory of mode \<open>0o40755\<close> on device \<open>d\<close>,
  a regular file of mode \<open>0o100644\<close> and \<open>n\<close> bytes on device 5, an instance with base
  \<open>/x\<close> on device 5, and the state after one entry has been recorded.
\<close>

definition dir_stat :: "int \<Rightarrow> stat_result" where
  "dir_stat d = \<lparr> st_mode = 16877, st_dev = d, st_gid = 0, st_uid = 0, st_ctime = 1,
                  st_mtime = 2, st_size = 4096 \<rparr>"

definition file_stat :: "int \<Rightarrow> stat_result" where
  "file_stat n = \<lparr> st_mode = 33188, st_dev = 5, st_gid = 0, st_uid = 0, st_ctime = 1,
                   st_mtime = 2, st_size = n \<rparr>"

definition walker :: "bool \<Rightarrow> bool \<Rightarrow> string option \<Rightarrow> config" where
  "walker follow0 bailout0 maxsize0 =
     (FileSystem_attrs ''/x'' follow0 bailout0 False maxsize0 ''snap'' ''/'')\<lparr>dev := 5\<rparr>"

definition recorded :: "string \<Rightarrow> stat_result \<Rightarrow> FileSystem" where
  "recorded n st = \<lparr> inode = 1, names = [(n, 0)], stat_objects = [StatObject_from_stat st 0],
                     stdout = [] \<rparr>"

text \<open>
  \<open>os.path.realpath\<close> on a file system whose only symbolic link is \<open>link\<close>, which points
  to \<open>target\<close>; the stat result of a symbolic link (mode \<open>0o120777\<close>); and a state that
  holds one directory of mode \<open>0o40500\<close>, whose record has bytes below 128 only.
\<close>

definition realpath_one_link :: "string \<Rightarrow> string \<Rightarrow> string \<Rightarrow> string \<Rightarrow> error + string" where
  "realpath_one_link cwd link target p =
     (if CHR 0x00 \<in> set p then Inl (ValueError ''embedded null byte'')
      else
        let q = abspath cwd p
        in if q = link then Inr target
           else if startswith q (link @ ''/'') then Inr (target @ drop (length link) q)
           else Inr q)"

definition link_stat :: stat_result where
  "link_stat = \<lparr> st_mode = 41471, st_dev = 5, st_gid = 0, st_uid = 0, st_ctime = 1,
                  st_mtime = 2, st_size = 1 \<rparr>"

definition private_dir :: FileSystem where
  "private_dir =
     \<lparr> inode = 1, names = [(''a'', 0)],
       stat_objects = [\<lparr> so_mode = 16704, so_inode = 0, so_gid = 0, so_uid = 0, so_mtime = 2,
                         so_ctime = 1, so_size = 4096, serialized = None \<rparr>],
       stdout = [] \<rparr>"

definition nested :: "string \<Rightarrow> string \<Rightarrow> FileSystem" where
  \<comment> \<open>the state after a file \<open>f\<close> and then a directory \<open>d\<close> have been recorded\<close>
  "nested f d = \<lparr> inode = 2, names = [(f, 0), (d, 1)],
                   stat_objects = [StatObject_from_stat (file_stat 10) 0,
                                   StatObject_from_stat (dir_stat 5) 1],
                   stdout = [] \<rparr>"

section \<open>Properties of the walk\<close>

lemma record_entry_steps:
  assumes "record_entry self maxsize0 name0 canonical_path relative_path stat_result s = Inr s'"
  shows "(inode s' = inode s \<and> names s' = names s \<and> stat_objects s' = stat_objects s)
       \<or> (name0 \<notin> set (map fst (names s)) \<and> inode s' = inode s + 1
          \<and> names s' = names s @ [(name0, inode s)]
          \<and> stat_objects s' = stat_objects s @ [StatObject_from_stat stat_result (inode s)])"
  using assms
  by (auto simp: record_entry_def new_node_def Let_def split: if_splits)

lemma record_entry_stdout:
  assumes "record_entry self maxsize0 name0 canonical_path relative_path stat_result s = Inr s'"
  shows "\<exists>evs. stdout s' = stdout s @ evs"
  using assms
  by (auto simp: record_entry_def new_node_def Let_def split: if_splits)

lemma walk_preserves:
  assumes print: "\<And>s x. P s \<Longrightarrow> P (s\<lparr>stdout := stdout s @ x\<rparr>)"
    and step: "\<And>self maxsize0 name0 canonical_path relative_path stat_result s s'.
                 P s \<Longrightarrow>
                 record_entry self maxsize0 name0 canonical_path relative_path stat_result s = Inr s'
                 \<Longrightarrow> P s'"
  shows "P s \<Longrightarrow> P (final (init_from_paths_rec self cwd paths s))"
    and "P s \<Longrightarrow> P (final (paths_loop self maxsize0 cwd paths s))"
    and "P s \<Longrightarrow> P (final (visit self maxsize0 cwd e s))"
proof (induction self cwd paths s and self maxsize0 cwd paths s and self maxsize0 cwd e s
       rule: init_from_paths_rec_paths_loop_visit.induct)
  case (1 self cwd paths s)
  then show ?case by (auto split: sum.splits)
next
  case (2 self maxsize0 cwd s)
  then show ?case by simp
next
  case (3 self maxsize0 cwd p ps s)
  show ?case
  proof (cases "visit self maxsize0 cwd p s")
    case (Returns s1)
    with 3 show ?thesis by auto
  next
    case (Raises e s1)
    with 3 show ?thesis by auto
  qed
next
  case (4 self maxsize0 cwd path0 stat_answer list_error children0 s)
  define relative_path where "relative_path = (case cwd of None \<Rightarrow> path0 | Some c \<Rightarrow> join c path0)"
  define canonical_path where
    "canonical_path = abspath (getcwd self) (join (base self) relative_path)"
  define name0 where "name0 = drop (base_len self) canonical_path"
  note defs = relative_path_def canonical_path_def name0_def
  have handlers: "P (final (listing_handlers c e t))" if "P t" for c e t
    using that print [of t] by (simp add: listing_handlers_def)
  show ?case
  proof (cases "startswith canonical_path (base self)")
    case False
    with 4(2) print [of s] show ?thesis by (simp add: Let_def defs)
  next
    case under: True
    show ?thesis
    proof (cases stat_answer)
      case (Inl e)
      with 4(2) under show ?thesis by (simp add: Let_def defs)
    next
      case (Inr stat_result)
      show ?thesis
      proof (cases "st_dev stat_result \<noteq> dev self")
        case True
        with 4(2) under Inr print [of s] show ?thesis by (simp add: Let_def defs)
      next
        case same: False
        show ?thesis
        proof (cases "record_entry self maxsize0 name0 canonical_path relative_path stat_result s")
          case (Inl e)
          with 4(2) under Inr same show ?thesis by (simp add: Let_def defs)
        next
          case rec: (Inr s1)
          have d1: "P s1" using step [OF 4(2) rec] .
          show ?thesis
          proof (cases "S_ISDIR (st_mode stat_result) \<and> follow self")
            case False
            with d1 under Inr same rec show ?thesis by (auto simp: Let_def defs)
          next
            case dir: True
            show ?thesis
            proof (cases list_error)
              case (Some e)
              with handlers [OF d1] under Inr same rec dir show ?thesis
                by (simp add: Let_def defs)
            next
              case None
              have ih: "P (final (init_from_paths_rec self (Some relative_path) children0 s1))"
                using 4(1) [of relative_path "join (base self) relative_path" canonical_path name0
                             stat_result s1] under same rec Inr dir None d1
                by (simp add: defs)
              show ?thesis
              proof (cases "init_from_paths_rec self (Some relative_path) children0 s1")
                case (Returns s2)
                with ih under Inr same rec dir None show ?thesis
                  by (simp add: Let_def defs)
              next
                case (Raises e s2)
                with ih handlers [of s2] under Inr same rec dir None show ?thesis
                  by (simp add: Let_def defs)
              qed
            qed
          qed
        qed
      qed
    qed
  qed
qed

lemma dense_walk: "dense s \<Longrightarrow> dense (final (init_from_paths_rec self cwd paths s))"
proof (rule walk_preserves(1) [where P = dense])
  show "dense (s\<lparr>stdout := stdout s @ x\<rparr>)" if "dense s" for s x
    using that by (simp add: dense_def)
  show "dense s'" if "dense s"
    and "record_entry self maxsize0 name0 canonical_path relative_path stat_result s = Inr s'"
  for self maxsize0 name0 canonical_path relative_path stat_result s s'
    using record_entry_steps [OF that(2)] that(1)
    by (auto simp: dense_def StatObject_from_stat_def)
qed

lemma extends_preserved:
  assumes "extends s0 s"
  shows "extends s0 (s\<lparr>stdout := stdout s @ x\<rparr>)"
  using assms by (simp add: extends_def prefix_prefix)

lemma extends_step:
  assumes "extends s0 s"
    and "record_entry self maxsize0 name0 canonical_path relative_path stat_result s = Inr s'"
  shows "extends s0 s'"
proof -
  obtain evs where "stdout s' = stdout s @ evs" using record_entry_stdout [OF assms(2)] by blast
  then show ?thesis
    using record_entry_steps [OF assms(2)] assms(1)
    by (auto simp: extends_def prefix_prefix)
qed

lemma extends_walk:
  "extends s0 s \<Longrightarrow> extends s0 (final (init_from_paths_rec self cwd paths s))"
  "extends s0 s \<Longrightarrow> extends s0 (final (paths_loop self maxsize0 cwd paths s))"
  "extends s0 s \<Longrightarrow> extends s0 (final (visit self maxsize0 cwd e s))"
proof -
  have p: "extends s0 (t\<lparr>stdout := stdout t @ x\<rparr>)" if "extends s0 t" for t x
    using that by (rule extends_preserved)
  have q: "extends s0 t'" if "extends s0 t"
    and "record_entry self maxsize0 name0 canonical_path relative_path stat_result t = Inr t'"
  for self maxsize0 name0 canonical_path relative_path stat_result t t'
    using that by (rule extends_step)
  show "extends s0 s \<Longrightarrow> extends s0 (final (init_from_paths_rec self cwd paths s))"
    by (rule walk_preserves(1) [where P = "extends s0"]) (auto intro: p q)
  show "extends s0 s \<Longrightarrow> extends s0 (final (paths_loop self maxsize0 cwd paths s))"
    by (rule walk_preserves(2) [where P = "extends s0"]) (auto intro: p q)
  show "extends s0 s \<Longrightarrow> extends s0 (final (visit self maxsize0 cwd e s))"
    by (rule walk_preserves(3) [where P = "extends s0"]) (auto intro: p q)
qed


text \<open>
  C10. A call of \<open>new_node\<close> with a name that is already a key of \<open>names\<close>, with
  \<open>bailout\<close> unset, returns None and leaves the whole state as it was: the counter, the
  names with the identity of that name, the records and the output.
\<close>

theorem new_node_duplicate_is_noop:
  assumes "name0 \<in> set (map fst (names s))" and "\<not> bailout self"
  shows "new_node self name0 s = Inr (None, s)"
  using assms by (simp add: new_node_def)

theorem new_node_duplicate_is_noop_witness:
  "new_node (FileSystem_attrs ''/x'' True False False None ''snap'' ''/'') ''a''
     \<lparr> inode = 1, names = [(''a'', 0)], stat_objects = [], stdout = [] \<rparr>
   = Inr (None, \<lparr> inode = 1, names = [(''a'', 0)], stat_objects = [], stdout = [] \<rparr>)"
  by (rule new_node_duplicate_is_noop) (simp_all add: FileSystem_attrs_def)

text \<open>
  The first FileSystem of a process. Whatever the walk is given and whether it returns
  or raises, started from the containers as the class body binds them, the state it
  leaves has the identities
  \<open>0, ..., count - 1\<close>, each once, in the order of the names; the record at index \<open>i\<close>
  carries identity \<open>i\<close>; and the step that records an entry either leaves counter,
  names and records alone or adds one name with the next identity together with one
  record of that identity.
\<close>

theorem walker_identity_density:
  "(let s = final (snd (init_from_paths self base_answer paths class_defaults))
    in inode s = int (length (names s))
       \<and> snd ` set (names s) = {0 ..< inode s}
       \<and> distinct (map fst (names s)) \<and> distinct (map snd (names s))
       \<and> map snd (names s) = map int [0 ..< length (names s)]
       \<and> length (stat_objects s) = length (names s)
       \<and> map so_inode (stat_objects s) = map snd (names s))
   \<and> (\<forall>t t'. record_entry self mx nm canonical_path relative_path stat_result t = Inr t'
         \<longrightarrow> (inode t' = inode t \<and> names t' = names t \<and> stat_objects t' = stat_objects t)
           \<or> (inode t' = inode t + 1 \<and> names t' = names t @ [(nm, inode t)]
              \<and> stat_objects t' = stat_objects t @ [StatObject_from_stat stat_result (inode t)]))"
proof -
  define s where "s = final (snd (init_from_paths self base_answer paths class_defaults))"
  have start: "dense class_defaults"
    by (simp add: dense_def class_defaults_def)
  have "dense s"
  proof (cases base_answer)
    case (Inl e)
    with start show ?thesis by (simp add: s_def init_from_paths_def)
  next
    case (Inr stat_result)
    have "dense (final (init_from_paths_rec (self\<lparr>dev := st_dev stat_result\<rparr>) None paths class_defaults))"
      using start by (rule dense_walk)
    with Inr show ?thesis
      by (auto simp: s_def init_from_paths_def Let_def dense_def split: result.splits)
  qed
  then have d: "inode s = int (length (names s))" "distinct (map fst (names s))"
    "map snd (names s) = map int [0 ..< length (names s)]"
    "length (stat_objects s) = length (names s)"
    "map so_inode (stat_objects s) = map int [0 ..< length (names s)]"
    by (simp_all add: dense_def)
  have "set (map snd (names s)) = int ` {0 ..< length (names s)}"
    by (simp add: d(3))
  then have ids: "snd ` set (names s) = {0 ..< inode s}"
    by (simp add: d(1) image_int_atLeastLessThan)
  have inj: "distinct (map snd (names s))"
    by (simp add: d(3) distinct_map)
  show ?thesis
    using d ids inj record_entry_steps
    unfolding s_def [symmetric] Let_def by metis
qed


theorem walker_identity_density_witness:
  "(let s = final (snd (init_from_paths
               (FileSystem_attrs ''/x'' True False False (Some ''15'') ''snap'' ''/'')
               (Inr \<lparr> st_mode = 16877, st_dev = 5, st_gid = 0, st_uid = 0, st_ctime = 1,
                      st_mtime = 2, st_size = 4096 \<rparr>)
               [Entry ''a'' (Inr \<lparr> st_mode = 33188, st_dev = 5, st_gid = 0, st_uid = 0,
                                   st_ctime = 1, st_mtime = 2, st_size = 10 \<rparr>) None [],
                Entry ''b'' (Inr \<lparr> st_mode = 16877, st_dev = 5, st_gid = 0, st_uid = 0,
                                   st_ctime = 1, st_mtime = 2, st_size = 4096 \<rparr>) None
                  [Entry ''c'' (Inr \<lparr> st_mode = 33188, st_dev = 5, st_gid = 0, st_uid = 0,
                                       st_ctime = 1, st_mtime = 2, st_size = 20 \<rparr>) None []]]
               class_defaults))
    in names s = [(''a'', 0), (''b'', 1)] \<and> snd ` set (names s) = {0 ..< inode s}
       \<and> map so_inode (stat_objects s) = map snd (names s))
   \<and> record_entry (FileSystem_attrs ''/x'' True False False (Some ''15'') ''snap'' ''/'')
        (Some 15) ''a'' ''/x/a'' ''a''
        \<lparr> st_mode = 33188, st_dev = 5, st_gid = 0, st_uid = 0, st_ctime = 1, st_mtime = 2,
          st_size = 10 \<rparr> class_defaults
      = Inr \<lparr> inode = 1, names = [(''a'', 0)],
              stat_objects = [\<lparr> so_mode = 33188, so_inode = 0, so_gid = 0, so_uid = 0,
                                so_mtime = 2, so_ctime = 1, so_size = 10, serialized = None \<rparr>],
              stdout = [] \<rparr>"
proof -
  let ?self = "FileSystem_attrs ''/x'' True False False (Some ''15'') ''snap'' ''/''"
  let ?file = "\<lparr> st_mode = 33188, st_dev = 5, st_gid = 0, st_uid = 0, st_ctime = 1,
                 st_mtime = 2, st_size = 10 \<rparr>"
  let ?t = "\<lparr> inode = 1, names = [(''a'', 0)],
              stat_objects = [\<lparr> so_mode = 33188, so_inode = 0, so_gid = 0, so_uid = 0,
                                so_mtime = 2, so_ctime = 1, so_size = 10, serialized = None \<rparr>],
              stdout = [] \<rparr>"
  have step: "record_entry ?self (Some 15) ''a'' ''/x/a'' ''a'' ?file class_defaults = Inr ?t"
    by code_simp
  have walk: "names (final (snd (init_from_paths ?self
               (Inr \<lparr> st_mode = 16877, st_dev = 5, st_gid = 0, st_uid = 0, st_ctime = 1,
                      st_mtime = 2, st_size = 4096 \<rparr>)
               [Entry ''a'' (Inr \<lparr> st_mode = 33188, st_dev = 5, st_gid = 0, st_uid = 0,
                                   st_ctime = 1, st_mtime = 2, st_size = 10 \<rparr>) None [],
                Entry ''b'' (Inr \<lparr> st_mode = 16877, st_dev = 5, st_gid = 0, st_uid = 0,
                                   st_ctime = 1, st_mtime = 2, st_size = 4096 \<rparr>) None
                  [Entry ''c'' (Inr \<lparr> st_mode = 33188, st_dev = 5, st_gid = 0, st_uid = 0,
                                       st_ctime = 1, st_mtime = 2, st_size = 20 \<rparr>) None []]]
               class_defaults))) = [(''a'', 0), (''b'', 1)]"
    by code_simp
  show ?thesis
    using walker_identity_density [where self = ?self and mx = "Some 15" and nm = "''a''"
        and canonical_path = "''/x/a''" and relative_path = "''a''" and stat_result = ?file
        and base_answer = "Inr \<lparr> st_mode = 16877, st_dev = 5, st_gid = 0, st_uid = 0, st_ctime = 1,
                      st_mtime = 2, st_size = 4096 \<rparr>"
        and paths = "[Entry ''a'' (Inr \<lparr> st_mode = 33188, st_dev = 5, st_gid = 0, st_uid = 0,
                                   st_ctime = 1, st_mtime = 2, st_size = 10 \<rparr>) None [],
                Entry ''b'' (Inr \<lparr> st_mode = 16877, st_dev = 5, st_gid = 0, st_uid = 0,
                                   st_ctime = 1, st_mtime = 2, st_size = 4096 \<rparr>) None
                  [Entry ''c'' (Inr \<lparr> st_mode = 33188, st_dev = 5, st_gid = 0, st_uid = 0,
                                       st_ctime = 1, st_mtime = 2, st_size = 20 \<rparr>) None []]]"]
      step walk
    by (simp add: Let_def)
qed

lemma map_of_prefix:
  assumes "prefix xs zs" and "k \<in> set (map fst xs)"
  shows "map_of zs k = map_of xs k"
proof -
  from assms(1) obtain ys where "zs = xs @ ys" by (auto simp: prefix_def)
  moreover from assms(2) have "k \<in> dom (map_of xs)" by (simp add: dom_map_of_conv_image_fst)
  ultimately show ?thesis by (auto simp: map_add_dom_app_simps)
qed

lemma visit_children_raise:
  assumes "rel = (case cwd of None \<Rightarrow> p | Some c \<Rightarrow> join c p)"
    and "can = abspath (getcwd self) (join (base self) rel)"
    and "startswith can (base self)"
    and "st_dev st = dev self" and "S_ISDIR (st_mode st)" and "follow self"
    and "record_entry self mx (drop (base_len self) can) can rel st s = Inr sa"
    and "init_from_paths_rec self (Some rel) kids sa = Raises e sb"
  shows "visit self mx cwd (Entry p (Inr st) None kids) s = listing_handlers can e sb"
  using assms by (simp add: Let_def del: init_from_paths_rec.simps)

text \<open>
  C8. A visited entry whose device differs from the device of the base adds nothing to
  names, records and counter; the visit returns with one warning printed, whatever the
  answer to listing it would be and whatever its children are, also with \<open>follow\<close> set;
  and the loop goes on with the next path.
\<close>

theorem device_boundary:
  assumes "rel = (case cwd of None \<Rightarrow> p | Some c \<Rightarrow> join c p)"
    and "can = abspath (getcwd self) (join (base self) rel)"
    and "startswith can (base self)"
    and "st_dev st \<noteq> dev self"
  shows "visit self mx cwd (Entry p (Inr st) list_error kids) s
           = Returns (s\<lparr>stdout := stdout s @ [SkipOtherFS can]\<rparr>)
       \<and> paths_loop self mx cwd (Entry p (Inr st) list_error kids # rest) s
           = paths_loop self mx cwd rest (s\<lparr>stdout := stdout s @ [SkipOtherFS can]\<rparr>)"
  using assms by (simp add: Let_def)

text \<open>
  C9. When \<open>os.stat\<close> of a visited entry raises FileNotFoundError, the walk raises it with
  \<open>bailout\<close> set and goes on with the next path, with nothing changed and nothing printed,
  otherwise. When \<open>os.listdir\<close> of a directory that is followed raises FileNotFoundError,
  the walk raises, whatever \<open>bailout\<close> is: AssertionError once the entry has been recorded.
  A FileNotFoundError that leaves the walk of the children (with \<open>bailout\<close> set) becomes an
  AssertionError of the parent, and an AssertionError of the children is one of the parent.
\<close>

theorem vanished_entry_policy:
  assumes "rel = (case cwd of None \<Rightarrow> p | Some c \<Rightarrow> join c p)"
    and "can = abspath (getcwd self) (join (base self) rel)"
    and "startswith can (base self)"
  shows "paths_loop self mx cwd (Entry p (Inl FileNotFoundError) list_error kids # rest) s
           = (if bailout self then Raises FileNotFoundError s
              else paths_loop self mx cwd rest s)
       \<and> (st_dev st = dev self \<and> S_ISDIR (st_mode st) \<and> follow self
            \<longrightarrow> (\<exists>e t. paths_loop self mx cwd (Entry p (Inr st) (Some FileNotFoundError) kids # rest) s
                         = Raises e t))
       \<and> (st_dev st = dev self \<and> S_ISDIR (st_mode st) \<and> follow self
            \<and> record_entry self mx (drop (base_len self) can) can rel st s = Inr sa
            \<longrightarrow> paths_loop self mx cwd (Entry p (Inr st) (Some FileNotFoundError) kids # rest) s
                  = Raises AssertionError sa)
       \<and> (st_dev st = dev self \<and> S_ISDIR (st_mode st) \<and> follow self
            \<and> record_entry self mx (drop (base_len self) can) can rel st s = Inr sa
            \<and> init_from_paths_rec self (Some rel) kids sa = Raises e sb
            \<and> (e = FileNotFoundError \<or> e = AssertionError)
            \<longrightarrow> paths_loop self mx cwd (Entry p (Inr st) None kids # rest) s
                  = Raises AssertionError sb)"
proof -
  have a: "paths_loop self mx cwd (Entry p (Inl FileNotFoundError) list_error kids # rest) s
           = (if bailout self then Raises FileNotFoundError s
              else paths_loop self mx cwd rest s)"
    using assms by (simp add: Let_def)
  have c: "paths_loop self mx cwd (Entry p (Inr st) (Some FileNotFoundError) kids # rest) s
             = Raises AssertionError sa"
    if "st_dev st = dev self" "S_ISDIR (st_mode st)" "follow self"
      "record_entry self mx (drop (base_len self) can) can rel st s = Inr sa" for sa
    using assms that by (simp add: Let_def listing_handlers_def)
  have b: "\<exists>e t. paths_loop self mx cwd (Entry p (Inr st) (Some FileNotFoundError) kids # rest) s
                 = Raises e t"
    if "st_dev st = dev self" "S_ISDIR (st_mode st)" "follow self"
  proof (cases "record_entry self mx (drop (base_len self) can) can rel st s")
    case (Inl e)
    then have "e \<noteq> FileNotFoundError"
      by (auto simp: record_entry_def new_node_def Let_def split: if_splits)
    with Inl assms that show ?thesis by (simp add: Let_def)
  next
    case (Inr t)
    with c that show ?thesis by blast
  qed
  have d: "paths_loop self mx cwd (Entry p (Inr st) None kids # rest) s = Raises AssertionError sb"
    if "st_dev st = dev self" "S_ISDIR (st_mode st)" "follow self"
      "record_entry self mx (drop (base_len self) can) can rel st s = Inr sa"
      "init_from_paths_rec self (Some rel) kids sa = Raises e sb"
      "e = FileNotFoundError \<or> e = AssertionError" for e
    using visit_children_raise [OF assms that(1-5)] that(6)
    by (auto simp: listing_handlers_def simp del: visit.simps)
  from a b c d show ?thesis by blast
qed

text \<open>
  C7. When a visited entry on the device of the base, not skipped for its size, has a
  name that is already recorded: with \<open>bailout\<close> set the walk raises the ValueError of the
  duplicate, and a directory whose children raise it raises it too; with \<open>bailout\<close> unset
  the step changes nothing but prints a warning, the loop goes on, and whatever follows,
  the names and records present stay where they are, the name keeps its identity.
\<close>

theorem duplicate_name_policy:
  assumes "rel = (case cwd of None \<Rightarrow> p | Some c \<Rightarrow> join c p)"
    and "can = abspath (getcwd self) (join (base self) rel)"
    and "startswith can (base self)"
    and "nm = drop (base_len self) can"
    and "st_dev st = dev self"
    and "\<not> (mx \<noteq> None \<and> S_ISREG (st_mode st) \<and> st_size st > the mx)"
    and "nm \<in> set (map fst (names s))"
  shows "(bailout self \<longrightarrow>
            paths_loop self mx cwd (Entry p (Inr st) list_error kids # rest) s
              = Raises (ValueError (''duplicate: '' @ nm)) s)
       \<and> (\<not> bailout self \<longrightarrow>
            record_entry self mx nm can rel st s
              = Inr (s\<lparr>stdout := stdout s @ [SkipDuplicate nm can (base self) rel]\<rparr>))
       \<and> (\<not> bailout self \<and> \<not> (S_ISDIR (st_mode st) \<and> follow self) \<longrightarrow>
            paths_loop self mx cwd (Entry p (Inr st) list_error kids # rest) s
              = paths_loop self mx cwd rest
                  (s\<lparr>stdout := stdout s @ [SkipDuplicate nm can (base self) rel]\<rparr>))
       \<and> (let r = final (paths_loop self mx cwd (Entry p (Inr st) list_error kids # rest) s)
          in prefix (names s) (names r) \<and> prefix (stat_objects s) (stat_objects r)
             \<and> map_of (names r) nm = map_of (names s) nm)
       \<and> (prel = (case pcwd of None \<Rightarrow> pp | Some c \<Rightarrow> join c pp)
           \<and> pcan = abspath (getcwd self) (join (base self) prel)
           \<and> startswith pcan (base self)
           \<and> st_dev pst = dev self \<and> S_ISDIR (st_mode pst) \<and> follow self
           \<and> record_entry self mx (drop (base_len self) pcan) pcan prel pst ps = Inr sa
           \<and> init_from_paths_rec self (Some prel) pkids sa = Raises (ValueError m) sb
          \<longrightarrow> paths_loop self mx pcwd (Entry pp (Inr pst) None pkids # prest) ps
                = Raises (ValueError m) sb)"
proof -
  have rec_bail: "record_entry self mx nm can rel st s = Inl (ValueError (''duplicate: '' @ nm))"
    if "bailout self"
    using assms that by (auto simp: record_entry_def new_node_def)
  have rec_skip: "record_entry self mx nm can rel st s
              = Inr (s\<lparr>stdout := stdout s @ [SkipDuplicate nm can (base self) rel]\<rparr>)"
    if "\<not> bailout self"
    using assms that by (auto simp: record_entry_def new_node_def)
  have a: "paths_loop self mx cwd (Entry p (Inr st) list_error kids # rest) s
              = Raises (ValueError (''duplicate: '' @ nm)) s" if "bailout self"
    using assms(1-5) rec_bail [OF that] by (simp add: Let_def)
  have c: "paths_loop self mx cwd (Entry p (Inr st) list_error kids # rest) s
              = paths_loop self mx cwd rest
                  (s\<lparr>stdout := stdout s @ [SkipDuplicate nm can (base self) rel]\<rparr>)"
    if "\<not> bailout self" "\<not> (S_ISDIR (st_mode st) \<and> follow self)"
    using assms(1-5) rec_skip [OF that(1)] that(2) by (auto simp: Let_def)
  have "extends s s" by (simp add: extends_def)
  then have "extends s (final (paths_loop self mx cwd (Entry p (Inr st) list_error kids # rest) s))"
    by (rule extends_walk(2))
  then have d: "let r = final (paths_loop self mx cwd (Entry p (Inr st) list_error kids # rest) s)
          in prefix (names s) (names r) \<and> prefix (stat_objects s) (stat_objects r)
             \<and> map_of (names r) nm = map_of (names s) nm"
    using assms(7) by (simp add: Let_def extends_def map_of_prefix)
  have e: "paths_loop self mx pcwd (Entry pp (Inr pst) None pkids # prest) ps
             = Raises (ValueError m) sb"
    if "prel = (case pcwd of None \<Rightarrow> pp | Some c \<Rightarrow> join c pp)"
      "pcan = abspath (getcwd self) (join (base self) prel)"
      "startswith pcan (base self)"
      "st_dev pst = dev self" "S_ISDIR (st_mode pst)" "follow self"
      "record_entry self mx (drop (base_len self) pcan) pcan prel pst ps = Inr sa"
      "init_from_paths_rec self (Some prel) pkids sa = Raises (ValueError m) sb"
    using visit_children_raise [OF that]
    by (simp add: listing_handlers_def del: visit.simps)
  from a rec_skip c d e show ?thesis by blast
qed


theorem device_boundary_witness:
  "startswith ''/x/mnt'' (base (walker True False None))
   \<and> st_dev (dir_stat 7) \<noteq> dev (walker True False None)
   \<and> visit (walker True False None) None None
         (Entry ''mnt'' (Inr (dir_stat 7)) None [Entry ''f'' (Inr (file_stat 10)) None []])
         class_defaults
       = Returns (class_defaults\<lparr>stdout := stdout class_defaults @ [SkipOtherFS ''/x/mnt'']\<rparr>)
   \<and> paths_loop (walker True False None) None None
         [Entry ''mnt'' (Inr (dir_stat 7)) None [Entry ''f'' (Inr (file_stat 10)) None []]]
         class_defaults
       = Returns (class_defaults\<lparr>stdout := stdout class_defaults @ [SkipOtherFS ''/x/mnt'']\<rparr>)"
proof -
  have h1: "''mnt'' = (case None :: string option of None \<Rightarrow> ''mnt'' | Some c \<Rightarrow> join c ''mnt'')"
    by simp
  have h2: "''/x/mnt'' = abspath (getcwd (walker True False None))
                           (join (base (walker True False None)) ''mnt'')"
    by code_simp
  have h3: "startswith ''/x/mnt'' (base (walker True False None))"
    by code_simp
  have h4: "st_dev (dir_stat 7) \<noteq> dev (walker True False None)"
    by code_simp
  show ?thesis
    using device_boundary [OF h1 h2 h3 h4, where mx = None and list_error = None
        and kids = "[Entry ''f'' (Inr (file_stat 10)) None []]" and s = class_defaults
        and rest = "[]"] h3 h4
    by (simp del: visit.simps paths_loop.simps(2))
qed

theorem vanished_entry_policy_witness:
  "paths_loop (walker True True None) None None
      [Entry ''d'' (Inl FileNotFoundError) None [Entry ''f'' (Inl FileNotFoundError) None []]]
      class_defaults
     = Raises FileNotFoundError class_defaults
   \<and> paths_loop (walker True False None) None None
      [Entry ''d'' (Inl FileNotFoundError) None []] class_defaults
     = Returns class_defaults
   \<and> record_entry (walker True True None) None ''d'' ''/x/d'' ''d'' (dir_stat 5) class_defaults
     = Inr (recorded ''d'' (dir_stat 5))
   \<and> paths_loop (walker True True None) None None
      [Entry ''d'' (Inr (dir_stat 5)) (Some FileNotFoundError)
         [Entry ''f'' (Inl FileNotFoundError) None []]] class_defaults
     = Raises AssertionError (recorded ''d'' (dir_stat 5))
   \<and> paths_loop (walker True False None) None None
      [Entry ''d'' (Inr (dir_stat 5)) (Some FileNotFoundError) []] class_defaults
     = Raises AssertionError (recorded ''d'' (dir_stat 5))
   \<and> init_from_paths_rec (walker True True None) (Some ''d'')
      [Entry ''f'' (Inl FileNotFoundError) None []] (recorded ''d'' (dir_stat 5))
     = Raises FileNotFoundError (recorded ''d'' (dir_stat 5))
   \<and> paths_loop (walker True True None) None None
      [Entry ''d'' (Inr (dir_stat 5)) None [Entry ''f'' (Inl FileNotFoundError) None []]]
      class_defaults
     = Raises AssertionError (recorded ''d'' (dir_stat 5))"
proof -
  have h1: "''d'' = (case None :: string option of None \<Rightarrow> ''d'' | Some c \<Rightarrow> join c ''d'')"
    by simp
  have h2: "''/x/d'' = abspath (getcwd (walker True b None)) (join (base (walker True b None)) ''d'')"
    for b by (cases b) code_simp+
  have h3: "startswith ''/x/d'' (base (walker True b None))" for b
    by (cases b) code_simp+
  have dir: "st_dev (dir_stat 5) = dev (walker True b None) \<and> S_ISDIR (st_mode (dir_stat 5))
             \<and> follow (walker True b None)" for b
    by (cases b) code_simp+
  have nm: "drop (base_len (walker True b None)) ''/x/d'' = ''d''" for b
    by (cases b) code_simp+
  have rec: "record_entry (walker True b None) None ''d'' ''/x/d'' ''d'' (dir_stat 5) class_defaults
               = Inr (recorded ''d'' (dir_stat 5))" for b
    by (cases b) code_simp+
  have kid: "init_from_paths_rec (walker True True None) (Some ''d'')
               [Entry ''f'' (Inl FileNotFoundError) None []] (recorded ''d'' (dir_stat 5))
             = Raises FileNotFoundError (recorded ''d'' (dir_stat 5))"
    by code_simp
  have bail: "bailout (walker True True None)" "\<not> bailout (walker True False None)"
    by code_simp+
  note b = vanished_entry_policy [OF h1 h2 h3, where st = "dir_stat 5" and mx = None
             and list_error = None and rest = "[]" and s = class_defaults
             and sa = "recorded ''d'' (dir_stat 5)" and sb = "recorded ''d'' (dir_stat 5)"
             and e = FileNotFoundError
             and kids = "[Entry ''f'' (Inl FileNotFoundError) None []]", of True, unfolded nm]
  note n = vanished_entry_policy [OF h1 h2 h3, where st = "dir_stat 5" and mx = None
             and list_error = None and rest = "[]" and s = class_defaults
             and sa = "recorded ''d'' (dir_stat 5)" and sb = "recorded ''d'' (dir_stat 5)"
             and e = FileNotFoundError
             and kids = "[]", of False, unfolded nm]
  show ?thesis
    using b n dir rec kid bail
    by (simp del: paths_loop.simps(2) visit.simps init_from_paths_rec.simps)
qed


theorem duplicate_name_policy_witness:
  "''a'' \<in> set (map fst (names (recorded ''a'' (file_stat 10))))
   \<and> paths_loop (walker True True None) None None [Entry ''a'' (Inr (file_stat 10)) None []]
        (recorded ''a'' (file_stat 10))
      = Raises (ValueError ''duplicate: a'') (recorded ''a'' (file_stat 10))
   \<and> record_entry (walker True False None) None ''a'' ''/x/a'' ''a'' (file_stat 10)
        (recorded ''a'' (file_stat 10))
      = Inr ((recorded ''a'' (file_stat 10))
               \<lparr>stdout := stdout (recorded ''a'' (file_stat 10))
                             @ [SkipDuplicate ''a'' ''/x/a'' ''/x'' ''a'']\<rparr>)
   \<and> paths_loop (walker True False None) None None [Entry ''a'' (Inr (file_stat 10)) None []]
        (recorded ''a'' (file_stat 10))
      = Returns ((recorded ''a'' (file_stat 10))
               \<lparr>stdout := stdout (recorded ''a'' (file_stat 10))
                             @ [SkipDuplicate ''a'' ''/x/a'' ''/x'' ''a'']\<rparr>)
   \<and> map_of (names (final (paths_loop (walker True False None) None None
                [Entry ''a'' (Inr (file_stat 10)) None []] (recorded ''a'' (file_stat 10))))) ''a''
      = Some 0
   \<and> init_from_paths_rec (walker True True None) (Some ''d'')
        [Entry ''a'' (Inr (file_stat 10)) None []] (nested ''d/a'' ''d'')
      = Raises (ValueError ''duplicate: d/a'') (nested ''d/a'' ''d'')
   \<and> paths_loop (walker True True None) None None
        [Entry ''d'' (Inr (dir_stat 5)) None [Entry ''a'' (Inr (file_stat 10)) None []]]
        (recorded ''d/a'' (file_stat 10))
      = Raises (ValueError ''duplicate: d/a'') (nested ''d/a'' ''d'')"
proof -
  have h1: "''a'' = (case None :: string option of None \<Rightarrow> ''a'' | Some c \<Rightarrow> join c ''a'')"
    by simp
  have h2: "''/x/a'' = abspath (getcwd (walker True b None)) (join (base (walker True b None)) ''a'')"
    for b by (cases b) code_simp+
  have h3: "startswith ''/x/a'' (base (walker True b None))" for b
    by (cases b) code_simp+
  have h4: "''a'' = drop (base_len (walker True b None)) ''/x/a''" for b
    by (cases b) code_simp+
  have h5: "st_dev (file_stat 10) = dev (walker True b None)" for b
    by (cases b) code_simp+
  have h6: "\<not> ((None :: int option) \<noteq> None \<and> S_ISREG (st_mode (file_stat 10))
               \<and> st_size (file_stat 10) > the None)"
    by simp
  have h7: "''a'' \<in> set (map fst (names (recorded ''a'' (file_stat 10))))"
    by code_simp
  have bail: "bailout (walker True True None)" "\<not> bailout (walker True False None)"
    and nodir: "\<not> S_ISDIR (st_mode (file_stat 10))"
    and base: "base (walker True False None) = ''/x''"
    and old: "map_of (names (recorded ''a'' (file_stat 10))) ''a'' = Some 0"
    by code_simp+
  have g1: "''d'' = (case None :: string option of None \<Rightarrow> ''d'' | Some c \<Rightarrow> join c ''d'')"
    by simp
  have g2: "''/x/d'' = abspath (getcwd (walker True True None))
                         (join (base (walker True True None)) ''d'')"
    and g3: "startswith ''/x/d'' (base (walker True True None))"
    and g4: "st_dev (dir_stat 5) = dev (walker True True None)
             \<and> S_ISDIR (st_mode (dir_stat 5)) \<and> follow (walker True True None)"
    and g5: "record_entry (walker True True None) None
               (drop (base_len (walker True True None)) ''/x/d'') ''/x/d'' ''d'' (dir_stat 5)
               (recorded ''d/a'' (file_stat 10)) = Inr (nested ''d/a'' ''d'')"
    and g6: "init_from_paths_rec (walker True True None) (Some ''d'')
               [Entry ''a'' (Inr (file_stat 10)) None []] (nested ''d/a'' ''d'')
             = Raises (ValueError ''duplicate: d/a'') (nested ''d/a'' ''d'')"
    by code_simp+
  note b = duplicate_name_policy [OF h1 h2 h3 h4 h5 h6 h7, where list_error = None and kids = "[]"
             and rest = "[]" and pcwd = None and pp = "''d''" and prel = "''d''"
             and pcan = "''/x/d''" and pst = "dir_stat 5" and pkids = "[Entry ''a'' (Inr (file_stat 10)) None []]"
             and prest = "[]" and ps = "recorded ''d/a'' (file_stat 10)"
             and sa = "nested ''d/a'' ''d''" and sb = "nested ''d/a'' ''d''"
             and m = "''duplicate: d/a''", of True]
  note n = duplicate_name_policy [OF h1 h2 h3 h4 h5 h6 h7, where list_error = None and kids = "[]"
             and rest = "[]", of False, THEN conjunct2, THEN conjunct1]
    duplicate_name_policy [OF h1 h2 h3 h4 h5 h6 h7, where list_error = None and kids = "[]"
             and rest = "[]", of False, THEN conjunct2, THEN conjunct2, THEN conjunct1]
    duplicate_name_policy [OF h1 h2 h3 h4 h5 h6 h7, where list_error = None and kids = "[]"
             and rest = "[]", of False, THEN conjunct2, THEN conjunct2, THEN conjunct2,
             THEN conjunct1]
  show ?thesis
    using b n h7 bail nodir base old g1 g2 g3 g4 g5 g6
    by (simp del: paths_loop.simps(2) visit.simps init_from_paths_rec.simps add: Let_def)
qed

lemma extends_refl: "extends s s"
  by (simp add: extends_def)

lemma extends_listing_handlers:
  "extends s0 t \<Longrightarrow> extends s0 (final (listing_handlers c e t))"
  by (simp add: listing_handlers_def extends_preserved)

lemma record_entry_new:
  assumes "\<not> (mx \<noteq> None \<and> S_ISREG (st_mode st) \<and> st_size st > the mx)"
    and "nm \<notin> set (map fst (names s))"
  shows "\<exists>sa. record_entry self mx nm can rel st s = Inr sa
            \<and> names sa = names s @ [(nm, inode s)]
            \<and> stat_objects sa = stat_objects s @ [StatObject_from_stat st (inode s)]
            \<and> inode sa = inode s + 1"
  using assms by (auto simp: record_entry_def new_node_def Let_def)

lemma visit_extends_record:
  assumes "rel = (case cwd of None \<Rightarrow> p | Some c \<Rightarrow> join c p)"
    and "can = abspath (getcwd self) (join (base self) rel)"
    and "startswith can (base self)"
    and "st_dev st = dev self"
    and "record_entry self mx (drop (base_len self) can) can rel st s = Inr sa"
  shows "extends sa (final (visit self mx cwd (Entry p (Inr st) list_error kids) s))"
proof (cases "S_ISDIR (st_mode st) \<and> follow self")
  case False
  with assms show ?thesis by (auto simp: Let_def extends_refl)
next
  case dir: True
  show ?thesis
  proof (cases list_error)
    case (Some e)
    have "extends sa (final (listing_handlers can e sa))"
      by (rule extends_listing_handlers [OF extends_refl])
    with Some assms dir show ?thesis
      by (simp add: Let_def)
  next
    case None
    have sub: "extends sa (final (init_from_paths_rec self (Some rel) kids sa))"
      using extends_refl by (rule extends_walk(1))
    show ?thesis
    proof (cases "init_from_paths_rec self (Some rel) kids sa")
      case (Returns sb)
      with assms dir None sub show ?thesis
        by (simp add: Let_def del: init_from_paths_rec.simps)
    next
      case (Raises e sb)
      with sub have "extends sa sb" by simp
      then have "extends sa (final (listing_handlers can e sb))"
        by (rule extends_listing_handlers)
      with assms dir None Raises show ?thesis
        by (simp add: Let_def del: init_from_paths_rec.simps)
    qed
  qed
qed

text \<open>
  C4, as amended. For every entry the walk visits, the walker forms the absolute,
  normalised path of the base joined with the path of the entry relative to the base
  (\<open>os.path.abspath\<close>, which resolves no symbolic link). If that path does not start with
  the base string the visit raises AssertionError, which no handler of the walk catches.
  If it is the base, a separator and a remainder (for the base \<open>/\<close>: the separator and a
  remainder), an entry that is recorded is recorded under the remainder, with the next
  identity.
\<close>

theorem walker_entry_name:
  assumes "rel = (case cwd of None \<Rightarrow> p | Some c \<Rightarrow> join c p)"
    and "can = abspath (getcwd self) (join (base self) rel)"
  shows "(\<not> startswith can (base self) \<longrightarrow>
            visit self mx cwd (Entry p answer list_error kids) s
              = Raises AssertionError (s\<lparr>stdout := stdout s @ [NotUnderBase can (base self)]\<rparr>))
       \<and> (((base_len self = length (base self) + 1 \<and> can = base self @ ''/'' @ nm)
             \<or> (base self = ''/'' \<and> base_len self = 1 \<and> can = ''/'' @ nm))
           \<and> st_dev st = dev self
           \<and> \<not> (mx \<noteq> None \<and> S_ISREG (st_mode st) \<and> st_size st > the mx)
           \<and> nm \<notin> set (map fst (names s))
          \<longrightarrow> prefix (names s @ [(nm, inode s)])
                 (names (final (visit self mx cwd (Entry p (Inr st) list_error kids) s)))
              \<and> prefix (stat_objects s @ [StatObject_from_stat st (inode s)])
                 (stat_objects (final (visit self mx cwd (Entry p (Inr st) list_error kids) s))))"
proof -
  have a: "visit self mx cwd (Entry p answer list_error kids) s
              = Raises AssertionError (s\<lparr>stdout := stdout s @ [NotUnderBase can (base self)]\<rparr>)"
    if "\<not> startswith can (base self)"
    using assms that by (simp add: Let_def)
  have b: "prefix (names s @ [(nm, inode s)])
                 (names (final (visit self mx cwd (Entry p (Inr st) list_error kids) s)))
         \<and> prefix (stat_objects s @ [StatObject_from_stat st (inode s)])
                 (stat_objects (final (visit self mx cwd (Entry p (Inr st) list_error kids) s)))"
    if shape: "(base_len self = length (base self) + 1 \<and> can = base self @ ''/'' @ nm)
             \<or> (base self = ''/'' \<and> base_len self = 1 \<and> can = ''/'' @ nm)"
      and dev: "st_dev st = dev self"
      and size: "\<not> (mx \<noteq> None \<and> S_ISREG (st_mode st) \<and> st_size st > the mx)"
      and new: "nm \<notin> set (map fst (names s))"
  proof -
    from shape have under: "startswith can (base self)" and strip: "drop (base_len self) can = nm"
      by (auto simp: startswith_def)
    from record_entry_new [OF size new, of self can rel] obtain sa where
      sa: "record_entry self mx nm can rel st s = Inr sa"
        "names sa = names s @ [(nm, inode s)]"
        "stat_objects sa = stat_objects s @ [StatObject_from_stat st (inode s)]"
      by blast
    from visit_extends_record [OF assms under dev, of mx s sa list_error kids] sa(1) strip
    have "extends sa (final (visit self mx cwd (Entry p (Inr st) list_error kids) s))"
      by simp
    with sa(2,3) show ?thesis by (simp add: extends_def)
  qed
  from a b show ?thesis by blast
qed

theorem walker_entry_name_witness:
  "\<not> startswith ''/y/z'' (base (walker True False None))
   \<and> visit (walker True False None) None None (Entry ''/y/z'' (Inr (file_stat 10)) None [])
        class_defaults
      = Raises AssertionError
          (class_defaults\<lparr>stdout := stdout class_defaults @ [NotUnderBase ''/y/z'' ''/x'']\<rparr>)
   \<and> ''/x/d/f'' = base (walker True False None) @ ''/'' @ ''d/f''
   \<and> prefix (names (recorded ''d'' (dir_stat 5)) @ [(''d/f'', 1)])
        (names (final (visit (walker True False None) None (Some ''d'')
                         (Entry ''f'' (Inr (file_stat 10)) None []) (recorded ''d'' (dir_stat 5)))))"
proof -
  have h1: "''/y/z'' = (case None :: string option of None \<Rightarrow> ''/y/z'' | Some c \<Rightarrow> join c ''/y/z'')"
    and g1: "''d/f'' = (case Some ''d'' of None \<Rightarrow> ''f'' | Some c \<Rightarrow> join c ''f'')"
    by code_simp+
  have h2: "''/y/z'' = abspath (getcwd (walker True False None))
                         (join (base (walker True False None)) ''/y/z'')"
    and g2: "''/x/d/f'' = abspath (getcwd (walker True False None))
                         (join (base (walker True False None)) ''d/f'')"
    by code_simp+
  have out: "\<not> startswith ''/y/z'' (base (walker True False None))"
    and base: "base (walker True False None) = ''/x''"
    and shape: "base_len (walker True False None) = length (base (walker True False None)) + 1
                \<and> ''/x/d/f'' = base (walker True False None) @ ''/'' @ ''d/f''"
    and dev: "st_dev (file_stat 10) = dev (walker True False None)"
    and new: "''d/f'' \<notin> set (map fst (names (recorded ''d'' (dir_stat 5))))"
    and cnt: "inode (recorded ''d'' (dir_stat 5)) = 1"
    by code_simp+
  have size: "\<not> ((None :: int option) \<noteq> None \<and> S_ISREG (st_mode (file_stat 10))
               \<and> st_size (file_stat 10) > the None)"
    by simp
  note a = walker_entry_name [OF h1 h2, where mx = None and answer = "Inr (file_stat 10)"
             and list_error = None and kids = "[]" and s = class_defaults, THEN conjunct1]
  note b = walker_entry_name [OF g1 g2, where mx = None and list_error = None and kids = "[]"
             and s = "recorded ''d'' (dir_stat 5)" and st = "file_stat 10" and nm = "''d/f''",
             THEN conjunct2]
  have c1: "visit (walker True False None) None None (Entry ''/y/z'' (Inr (file_stat 10)) None [])
              class_defaults
            = Raises AssertionError
                (class_defaults\<lparr>stdout := stdout class_defaults @ [NotUnderBase ''/y/z'' ''/x'']\<rparr>)"
    using a [THEN mp, OF out] unfolding base .
  have "prefix (names (recorded ''d'' (dir_stat 5)) @ [(''d/f'', inode (recorded ''d'' (dir_stat 5)))])
          (names (final (visit (walker True False None) None (Some ''d'')
                           (Entry ''f'' (Inr (file_stat 10)) None []) (recorded ''d'' (dir_stat 5)))))"
    using b [THEN mp, THEN conjunct1] shape dev new size by blast
  then have c2: "prefix (names (recorded ''d'' (dir_stat 5)) @ [(''d/f'', 1)])
          (names (final (visit (walker True False None) None (Some ''d'')
                           (Entry ''f'' (Inr (file_stat 10)) None []) (recorded ''d'' (dir_stat 5)))))"
    unfolding cnt .
  from out c1 shape c2 show ?thesis by blast
qed

text \<open>
  C4, as stated, fails where an entry is a symbolic link. Under the base \<open>/x\<close>, with
  \<open>/x/l\<close> a link to \<open>/x/t\<close>, the walk of the root \<open>.\<close> finds the child \<open>l\<close>; the
  symlink-resolved form of its path is \<open>/x/t\<close>, whose stripped form is \<open>t\<close>; the walk
  records the name \<open>l\<close>.
\<close>

theorem walker_keeps_link_name_counterexample:
  "realpath_one_link ''/'' ''/x/l'' ''/x/t''
       (join (base (walker True False None)) (join ''.'' ''l''))
     = Inr ''/x/t''
   \<and> drop (base_len (walker True False None)) ''/x/t'' = ''t''
   \<and> map fst (names (final (snd (init_from_paths (walker True False None) (Inr (dir_stat 5))
          [Entry ''.'' (Inr (dir_stat 5)) None [Entry ''l'' (Inr link_stat) None []]]
          class_defaults))))
     = [[], ''l'']
   \<and> ''l'' \<noteq> ''t''"
  by code_simp

section \<open>Instances of one process\<close>

text \<open>
  C3. Two instances built one after the other in one process: after the first, its names
  are \<open>a \<mapsto> 0\<close> with one record; after the second, built over \<open>b\<close>, the first instance
  reads the names \<open>a \<mapsto> 0, b \<mapsto> 0\<close> and two records of identity 0. The dict and the
  list are those of the class; only the counter is the instance's own.
\<close>

theorem second_instance_shares_state:
  "(case FileSystem_create (walker False False None) (Inr (dir_stat 5))
           [Entry ''a'' (Inr (file_stat 10)) None []] False started of
      (Inl e, p) \<Rightarrow> False
    | (Inr (first, file), p) \<Rightarrow>
        names (view p (self_inode first)) = [(''a'', 0)]
        \<and> map so_inode (stat_objects (view p (self_inode first))) = [0]
        \<and> (case FileSystem_create (walker False False None) (Inr (dir_stat 5))
                   [Entry ''b'' (Inr (file_stat 20)) None []] False p of
              (Inl e, q) \<Rightarrow> False
            | (Inr (second, file2), q) \<Rightarrow>
                names (view q (self_inode first)) = [(''a'', 0), (''b'', 0)]
                \<and> map so_inode (stat_objects (view q (self_inode first))) = [0, 0]
                \<and> map so_size (stat_objects (view q (self_inode first))) = [10, 20]
                \<and> self_inode first = 1 \<and> self_inode second = 1))"
  by code_simp

text \<open>
  C2. The snapshot a second instance builds in the same process, over \<open>b\<close> after a first
  instance was built over \<open>a\<close>: its counter is 1 while it reads two names; both names
  have the identity 0, so the identities are not \<open>0, ..., count - 1\<close> for the two names,
  two names share one identity, and both records carry the identity 0.
\<close>

theorem second_snapshot_not_dense:
  "(case FileSystem_create (walker False False None) (Inr (dir_stat 5))
           [Entry ''a'' (Inr (file_stat 10)) None []] False started of
      (Inl e, p) \<Rightarrow> False
    | (Inr (first, file), p) \<Rightarrow>
        (case FileSystem_create (walker False False None) (Inr (dir_stat 5))
                [Entry ''b'' (Inr (file_stat 20)) None []] False p of
           (Inl e, q) \<Rightarrow> False
         | (Inr (second, file2), q) \<Rightarrow>
             inode (view q (self_inode second)) = 1
             \<and> names (view q (self_inode second)) = [(''a'', 0), (''b'', 0)]
             \<and> length (names (view q (self_inode second))) = 2
             \<and> snd ` set (names (view q (self_inode second))) = {0}
             \<and> snd ` set (names (view q (self_inode second))) \<noteq> {0 ..< 2}
             \<and> \<not> distinct (map snd (names (view q (self_inode second))))
             \<and> map so_inode (stat_objects (view q (self_inode second))) = [0, 0]))"
  by code_simp

section \<open>Paths.add\<close>

text \<open>
  C5. With base \<open>/x\<close> and \<open>relative_only\<close> set, the path \<open>/xy/z\<close>, whose canonical form is
  itself and is not under \<open>/x\<close>, is not refused: \<open>startswith\<close> compares strings, and the
  set receives \<open>/z\<close>.
\<close>

theorem Paths_add_accepts_sibling:
  "realpath_nolinks ''/'' ''/xy/z'' = Inr ''/xy/z''
   \<and> Paths_add (realpath_nolinks ''/'') ''/x'' True ''/xy/z'' {} = Inr {''/z''}"
  by (simp add: Paths_add_def realpath_nolinks_def abspath_def normpath_def startswith_def
        norm_step_def strip_def isspace_def Let_def)

lemma Paths_add_reraises:
  assumes "realpath (strip p) = Inl (ValueError m)"
  shows "Paths_add realpath base0 relative_only p paths
           = (if CHR 0x00 \<in> set (strip p) then Inl (ValueError m)
              else Inl (ValueError ''substring not found''))"
proof -
  have idx: "(\<exists>i. str_index q (CHR 0x00) = Inr i) = (CHR 0x00 \<in> set q)"
    "CHR 0x00 \<notin> set q \<Longrightarrow> str_index q (CHR 0x00) = Inl (ValueError ''substring not found'')" for q
    by (induction q) (auto split: sum.splits)
  show ?thesis
  proof (cases "CHR 0x00 \<in> set (strip p)")
    case True
    with idx(1) [of "strip p"] obtain i where "str_index (strip p) (CHR 0x00) = Inr i" by blast
    with assms True show ?thesis by (simp add: Paths_add_def Let_def)
  next
    case False
    with idx(2) [of "strip p"] assms show ?thesis by (simp add: Paths_add_def Let_def)
  qed
qed

text \<open>
  C6. A path with an embedded NUL, on which \<open>os.path.realpath\<close> raises ValueError: the
  handler computes the truncated string and resolves the untruncated one again, so
  \<open>add\<close> raises and the set receives nothing, though the truncated string \<open>a\<close> resolves.
\<close>

theorem Paths_add_nul_raises:
  "strip [CHR ''a'', CHR 0x00, CHR ''b''] = [CHR ''a'', CHR 0x00, CHR ''b'']
   \<and> realpath_nolinks ''/x'' [CHR ''a''] = Inr ''/x/a''
   \<and> Paths_add (realpath_nolinks ''/x'') ''/x'' False [CHR ''a'', CHR 0x00, CHR ''b''] {}
       = Inl (ValueError ''embedded null byte'')"
  by (simp add: Paths_add_def realpath_nolinks_def abspath_def normpath_def startswith_def
        norm_step_def strip_def isspace_def Let_def join_def endswith_def)

section \<open>The snapshot file read back\<close>

lemma import_records_raises: "is \<noteq> [] \<Longrightarrow> import_records sos is objs = Inl TypeError"
  by (cases "is") (simp_all add: StatObject_from_data_def)

lemma import_fs_loads_no_record:
  assumes "import_fs decode file s = Inr s'"
  shows "inode s' \<le> 0"
proof (rule ccontr)
  assume "\<not> inode s' \<le> 0"
  from assms obtain n sos objs where
    r: "import_records sos [0..<nat n] (stat_objects s) = Inr objs"
    and s': "inode s' = n"
    by (auto simp: import_fs_def split: sum.splits prod.splits)
  from s' \<open>\<not> inode s' \<le> 0\<close> have "[0..<nat n] \<noteq> []" by simp
  from import_records_raises [OF this] r show False by simp
qed

text \<open>
  C1. The file \<open>export_fs\<close> writes for a state with one name, read by \<open>import_fs\<close> in a new
  process: the count and the name are read, and building the first record raises
  TypeError. No file that declares a record can be imported.
\<close>

theorem import_of_export_raises:
  "(case export_fs (walker True False None) False private_dir of
      Inl e \<Rightarrow> False
    | Inr (file, s) \<Rightarrow>
        file = ''1\<newline>a\<newline>0\<newline>'' @ [CHR 0x40, CHR 0x41] @ replicate 14 (CHR 0x00)
                 @ [CHR 0x02] @ replicate 7 (CHR 0x00) @ [CHR 0x01] @ replicate 7 (CHR 0x00)
                 @ [CHR 0x00, CHR 0x10] @ replicate 6 (CHR 0x00)
        \<and> import_fs ascii_decode file class_defaults = Inl TypeError)"
  by code_simp

end
